theory Spec2Isabelle
  imports Complex_Main
begin

section \<open>Values shared by the worker and the dashboard\<close>

text \<open>
  JavaScript strings are modelled as \<open>string\<close> holding the UTF-8 bytes of the text, the
  form in which the source files and the JSON bodies carry them. Two texts are equal
  exactly when their byte lists are, so \<open>===\<close> on strings is \<open>=\<close> here. Non-ASCII
  characters are written byte by byte.

  A field that holds \<open>Date.toISOString()\<close> output is a string in the source. The model
  separates the strings that \<open>new Date(s)\<close> parses (identified with the instant they
  denote, in milliseconds since the epoch) from every other text, for which
  \<open>getTime()\<close> is NaN.

  Numbers are IEEE doubles in the source; the worker only copies them, so they are
  carried as reals.

  An optional property (\<open>field?: T\<close>) is an \<open>option\<close>: \<open>None\<close> is the absent
  property. JSON \<open>null\<close> is outside the declared types of these properties; the
  operator \<open>??\<close> would treat it like an absent one.
\<close>

datatype isostring = ISO int | NotADate string

type_synonym number = real

fun getTime :: "isostring \<Rightarrow> int option" where
  "getTime (ISO t) = Some t"
| "getTime (NotADate s) = None"

text \<open>The nullish coalescing operator \<open>a ?? b\<close>.\<close>

fun orElse :: "'a option \<Rightarrow> 'a \<Rightarrow> 'a" where
  "orElse None d = d"
| "orElse (Some v) d = v"

text \<open>Decimal rendering of a non-negative integer, as a template literal prints it.\<close>

fun decimal :: "nat \<Rightarrow> string" where
  "decimal n =
     (if n < 10 then [''0123456789'' ! n]
      else decimal (n div 10) @ [''0123456789'' ! (n mod 10)])"

declare decimal.simps [simp del]

section \<open>Worker: types\<close>

definition UNITY_STATUS_KEY :: string where
  "UNITY_STATUS_KEY = ''unity-status''"

definition LATEST_COMMIT_KEY :: string where
  "LATEST_COMMIT_KEY = ''latest-commit''"

definition allowedUnityStates :: "string list" where
  "allowedUnityStates = [''working'', ''break'', ''offline'']"

definition allowedUnityStateSet :: "string set" where
  "allowedUnityStateSet = set allowedUnityStates"

text \<open>
  \<open>UnityState\<close> is a union of string literals that exists only at compile time: the
  request body is cast, not checked, so at run time \<open>state\<close> is whatever string the
  client sent. It is a \<open>string\<close> here, and \<open>validateUnityPayload\<close> is what restricts it.
\<close>

type_synonym UnityState = string

record UnityActivity =
  id :: string
  state :: UnityState
  label :: string
  timestamp :: isostring

text \<open>
  \<open>UnityStatus\<close> has the eleven declared fields. The last field of the record below,
  \<open>isHeartbeat\<close>, is not declared by the type: it is the property that the object
  spread \<open>...update\<close> in \<open>mergeUnityStatus\<close> copies into the stored object at run time
  (\<open>None\<close>: the object has no such property).
\<close>

record UnityStatus =
  state :: UnityState
  currentTask :: string
  activityType :: string
  sceneName :: string
  unityVersion :: string
  isPlayMode :: bool
  totalTodayHours :: number
  totalWeekHours :: number
  productiveStreak :: number
  lastUpdated :: isostring
  history :: "UnityActivity list"
  isHeartbeat :: "bool option"

record UnityStatusUpdate =
  state :: UnityState
  currentTask :: "string option"
  activityType :: "string option"
  sceneName :: "string option"
  unityVersion :: "string option"
  isPlayMode :: "bool option"
  totalTodayHours :: "number option"
  totalWeekHours :: "number option"
  productiveStreak :: "number option"
  isHeartbeat :: "bool option"

record LatestCommit =
  id :: string
  message :: string
  author :: string
  url :: string
  repository :: string
  committedAt :: isostring
  branch :: "string option"

record GitHubAuthor =
  name :: "string option"

record GitHubHeadCommit =
  id :: "string option"
  message :: "string option"
  timestamp :: "isostring option"
  url :: "string option"
  author :: "GitHubAuthor option"

record GitHubRepository =
  full_name :: "string option"
  html_url :: "string option"

record GitHubWebhookPayload =
  ref :: "string option"
  repository :: "GitHubRepository option"
  head_commit :: "GitHubHeadCommit option"

text \<open>
  \<open>channel\<close> and \<open>message\<close> are declared mandatory, but the handler tests them for
  truthiness, so they are options here. \<open>metadata\<close> is an opaque JSON object that is
  only forwarded; it is carried as its JSON text.
\<close>

record NotificationBody =
  channel :: "string option"
  title :: "string option"
  message :: "string option"
  metadata :: "string option"

record StoredState =
  unityStatus :: "UnityStatus option"
  latestCommit :: "LatestCommit option"

text \<open>
  A KV namespace maps keys to JSON texts. The worker is the only writer of the two keys
  it reads, and \<open>JSON.parse (JSON.stringify v)\<close> gives back the records below, so a
  namespace is modelled by the parsed document under each key.
\<close>

type_synonym 'v KVNamespace = "string \<rightharpoonup> 'v"

record Env =
  UNITY_STATUS_KV :: "UnityStatus KVNamespace option"
  COMMIT_CACHE_KV :: "LatestCommit KVNamespace option"
  N8N_WEBHOOK_URL :: "string option"

text \<open>
  The state a request runs against: the bindings with the contents of their namespaces,
  and \<open>globalThis.__DEV_PORTAL_CACHE__\<close> (\<open>None\<close> while the property is undefined).
\<close>

record World =
  env :: Env
  DEV_PORTAL_CACHE :: "StoredState option"

text \<open>
  What a handler reads from its surroundings while it runs: the instant given by
  \<open>new Date()\<close>, the later reading of \<open>Date.now()\<close>, and the six hexadecimal digits
  cut from \<open>Math.random().toString(16)\<close>.
\<close>

record Ambient =
  newDate :: int
  dateNow :: nat
  mathRandom :: string

datatype error = HTTPException nat string | FetchRejected

definition defaultUnityStatus :: UnityStatus where
  "defaultUnityStatus =
     \<lparr> UnityStatus.state = ''offline'',
       UnityStatus.currentTask = ''Awaiting editor activity'',
       UnityStatus.activityType = ''Idle'',
       UnityStatus.sceneName = ''-'',
       UnityStatus.unityVersion = ''2022.3 LTS'',
       UnityStatus.isPlayMode = False,
       UnityStatus.totalTodayHours = 0,
       UnityStatus.totalWeekHours = 0,
       UnityStatus.productiveStreak = 0,
       UnityStatus.lastUpdated = ISO 0,
       UnityStatus.history = [],
       UnityStatus.isHeartbeat = None \<rparr>"

section \<open>Worker: state access\<close>

text \<open>
  \<open>readFromKV\<close> and \<open>writeToKV\<close> are generic in the stored type and branch on the
  key. They are called with two (type, key) pairs only; the definitions below are the
  source specialised to each pair, the tests \<open>key === ...\<close> evaluated. Reading through
  the fallback path initialises the global cache (\<open>??=\<close>), which is kept.
\<close>

definition emptyStoredState :: StoredState where
  "emptyStoredState = \<lparr> unityStatus = None, latestCommit = None \<rparr>"

definition readFromKV_unityStatus :: "World \<Rightarrow> UnityStatus option \<times> World" where
  "readFromKV_unityStatus w =
     (case UNITY_STATUS_KV (env w) of
        Some kv \<Rightarrow> (kv UNITY_STATUS_KEY, w)
      | None \<Rightarrow>
          (let cache = orElse (DEV_PORTAL_CACHE w) emptyStoredState
           in (unityStatus cache, w\<lparr> DEV_PORTAL_CACHE := Some cache \<rparr>)))"

definition readFromKV_latestCommit :: "World \<Rightarrow> LatestCommit option \<times> World" where
  "readFromKV_latestCommit w =
     (case COMMIT_CACHE_KV (env w) of
        Some kv \<Rightarrow> (kv LATEST_COMMIT_KEY, w)
      | None \<Rightarrow>
          (let cache = orElse (DEV_PORTAL_CACHE w) emptyStoredState
           in (latestCommit cache, w\<lparr> DEV_PORTAL_CACHE := Some cache \<rparr>)))"

definition writeToKV_unityStatus :: "World \<Rightarrow> UnityStatus \<Rightarrow> World" where
  "writeToKV_unityStatus w v =
     (case UNITY_STATUS_KV (env w) of
        Some kv \<Rightarrow> w\<lparr> env := (env w)\<lparr> UNITY_STATUS_KV := Some (kv(UNITY_STATUS_KEY \<mapsto> v)) \<rparr> \<rparr>
      | None \<Rightarrow>
          (let cache = orElse (DEV_PORTAL_CACHE w) emptyStoredState
           in w\<lparr> DEV_PORTAL_CACHE := Some (cache\<lparr> unityStatus := Some v \<rparr>) \<rparr>))"

definition writeToKV_latestCommit :: "World \<Rightarrow> LatestCommit \<Rightarrow> World" where
  "writeToKV_latestCommit w v =
     (case COMMIT_CACHE_KV (env w) of
        Some kv \<Rightarrow> w\<lparr> env := (env w)\<lparr> COMMIT_CACHE_KV := Some (kv(LATEST_COMMIT_KEY \<mapsto> v)) \<rparr> \<rparr>
      | None \<Rightarrow>
          (let cache = orElse (DEV_PORTAL_CACHE w) emptyStoredState
           in w\<lparr> DEV_PORTAL_CACHE := Some (cache\<lparr> latestCommit := Some v \<rparr>) \<rparr>))"

section \<open>Worker: status merge\<close>

definition validateUnityPayload :: "UnityStatusUpdate \<Rightarrow> error + UnityStatusUpdate" where
  "validateUnityPayload payload =
     (if UnityStatusUpdate.state payload \<notin> allowedUnityStateSet
      then Inl (HTTPException 400 ''Invalid Unity status state'')
      else Inr payload)"

text \<open>
  The separator typed between the two parts of a label. In the source file these are
  the three characters U+00E2, U+20AC, U+201D between two spaces (bytes
  \<open>20 C3 A2 E2 82 AC E2 80 9D 20\<close>), not an em dash.
\<close>

definition labelSeparator :: string where
  "labelSeparator =
     [CHR '' '', CHR 0xC3, CHR 0xA2, CHR 0xE2, CHR 0x82, CHR 0xAC, CHR 0xE2, CHR 0x80, CHR 0x9D,
      CHR '' '']"

text \<open>The em dash U+2014 between two spaces (bytes \<open>20 E2 80 94 20\<close>).\<close>

definition emDashSeparator :: string where
  "emDashSeparator = [CHR '' '', CHR 0xE2, CHR 0x80, CHR 0x94, CHR '' '']"

text \<open>The object literal bound to \<open>historyEntry\<close> inside \<open>mergeUnityStatus\<close>.\<close>

definition historyEntry :: "Ambient \<Rightarrow> UnityStatus \<Rightarrow> UnityActivity" where
  "historyEntry amb next =
     \<lparr> UnityActivity.id = decimal (dateNow amb) @ ''-'' @ mathRandom amb,
       UnityActivity.state = UnityStatus.state next,
       UnityActivity.label =
         UnityStatus.activityType next @ labelSeparator @ UnityStatus.currentTask next,
       UnityActivity.timestamp = ISO (newDate amb) \<rparr>"

text \<open>
  The object literal bound to \<open>next\<close>: the spread of \<open>previous\<close>, then the spread of
  \<open>update\<close> (which sets \<open>state\<close>, and \<open>isHeartbeat\<close> when the update has it), then the
  nine explicit properties. \<open>history\<close> is still the previous one at this point.
\<close>

definition nextStatus :: "Ambient \<Rightarrow> UnityStatus \<Rightarrow> UnityStatusUpdate \<Rightarrow> UnityStatus" where
  "nextStatus amb previous update =
     \<lparr> UnityStatus.state = UnityStatusUpdate.state update,
       UnityStatus.currentTask =
         orElse (UnityStatusUpdate.currentTask update) (UnityStatus.currentTask previous),
       UnityStatus.activityType =
         orElse (UnityStatusUpdate.activityType update) (UnityStatus.activityType previous),
       UnityStatus.sceneName =
         orElse (UnityStatusUpdate.sceneName update) (UnityStatus.sceneName previous),
       UnityStatus.unityVersion =
         orElse (UnityStatusUpdate.unityVersion update) (UnityStatus.unityVersion previous),
       UnityStatus.isPlayMode =
         orElse (UnityStatusUpdate.isPlayMode update) (UnityStatus.isPlayMode previous),
       UnityStatus.totalTodayHours =
         orElse (UnityStatusUpdate.totalTodayHours update) (UnityStatus.totalTodayHours previous),
       UnityStatus.totalWeekHours =
         orElse (UnityStatusUpdate.totalWeekHours update) (UnityStatus.totalWeekHours previous),
       UnityStatus.productiveStreak =
         orElse (UnityStatusUpdate.productiveStreak update)
           (UnityStatus.productiveStreak previous),
       UnityStatus.lastUpdated = ISO (newDate amb),
       UnityStatus.history = UnityStatus.history previous,
       UnityStatus.isHeartbeat =
         (case UnityStatusUpdate.isHeartbeat update of
            Some b \<Rightarrow> Some b
          | None \<Rightarrow> UnityStatus.isHeartbeat previous) \<rparr>"

definition mergeUnityStatus :: "Ambient \<Rightarrow> UnityStatus \<Rightarrow> UnityStatusUpdate \<Rightarrow> UnityStatus" where
  "mergeUnityStatus amb previous update =
     (let isHeartbeat = orElse (UnityStatusUpdate.isHeartbeat update) False;
          next = nextStatus amb previous update
      in if \<not> isHeartbeat
         then next\<lparr> UnityStatus.history :=
                take 10 (historyEntry amb next # UnityStatus.history previous) \<rparr>
         else next\<lparr> UnityStatus.history := UnityStatus.history previous \<rparr>)"

section \<open>Worker: handlers\<close>

definition getUnityStatus :: "World \<Rightarrow> UnityStatus \<times> World" where
  "getUnityStatus w =
     (let (stored, w1) = readFromKV_unityStatus w
      in (orElse stored defaultUnityStatus, w1))"

definition postUnityStatus ::
  "Ambient \<Rightarrow> World \<Rightarrow> UnityStatusUpdate \<Rightarrow> (error + UnityStatus) \<times> World" where
  "postUnityStatus amb w payload =
     (case validateUnityPayload payload of
        Inl e \<Rightarrow> (Inl e, w)
      | Inr _ \<Rightarrow>
          (let (stored, w1) = readFromKV_unityStatus w;
               current = orElse stored defaultUnityStatus;
               merged = mergeUnityStatus amb current payload
           in (Inr merged, writeToKV_unityStatus w1 merged)))"

text \<open>\<open>GET /api/latest-commit\<close>.\<close>

definition getLatestCommit :: "World \<Rightarrow> LatestCommit option \<times> World" where
  "getLatestCommit w = readFromKV_latestCommit w"

text \<open>
  \<open>String.prototype.replace\<close> with a string pattern: the first occurrence of the
  pattern, wherever it starts, is replaced; a text without the pattern is returned as
  it is.
\<close>

fun replace :: "string \<Rightarrow> string \<Rightarrow> string \<Rightarrow> string" where
  "replace pat rep [] = (if pat = [] then rep else [])"
| "replace pat rep (c # cs) =
     (if take (length pat) (c # cs) = pat then rep @ drop (length pat) (c # cs)
      else c # replace pat rep cs)"

text \<open>
  The object literal bound to \<open>commit\<close> in the handler of \<open>POST /api/github-webhook\<close>,
  for a payload whose \<open>head_commit\<close> is \<open>hc\<close>.
\<close>

definition commitOf :: "Ambient \<Rightarrow> GitHubWebhookPayload \<Rightarrow> GitHubHeadCommit \<Rightarrow> LatestCommit" where
  "commitOf amb payload hc =
     \<lparr> LatestCommit.id = orElse (GitHubHeadCommit.id hc) ''unknown'',
       LatestCommit.message = orElse (GitHubHeadCommit.message hc) ''No commit message'',
       LatestCommit.author =
         orElse (case GitHubHeadCommit.author hc of None \<Rightarrow> None | Some a \<Rightarrow> name a) ''Unknown'',
       LatestCommit.url =
         orElse (GitHubHeadCommit.url hc)
           (orElse (case GitHubWebhookPayload.repository payload of
                      None \<Rightarrow> None
                    | Some r \<Rightarrow> html_url r) []),
       LatestCommit.repository =
         orElse (case GitHubWebhookPayload.repository payload of
                   None \<Rightarrow> None
                 | Some r \<Rightarrow> full_name r) ''unknown'',
       LatestCommit.committedAt = orElse (GitHubHeadCommit.timestamp hc) (ISO (newDate amb)),
       LatestCommit.branch =
         (case ref payload of None \<Rightarrow> None | Some r \<Rightarrow> Some (replace ''refs/heads/'' [] r)) \<rparr>"

text \<open>
  \<open>POST /api/github-webhook\<close>. The body may be JSON \<open>null\<close> (\<open>payload?.head_commit\<close>),
  which is \<open>None\<close> here. The first component is the commit the handler builds and
  stores (the response body itself is the constant \<open>{stored: true}\<close>).
\<close>

definition githubWebhook ::
  "Ambient \<Rightarrow> World \<Rightarrow> GitHubWebhookPayload option \<Rightarrow> (error + LatestCommit) \<times> World" where
  "githubWebhook amb w body =
     (case body of
        None \<Rightarrow> (Inl (HTTPException 400 ''Missing head_commit in GitHub payload''), w)
      | Some payload \<Rightarrow>
          (case head_commit payload of
             None \<Rightarrow> (Inl (HTTPException 400 ''Missing head_commit in GitHub payload''), w)
           | Some hc \<Rightarrow>
               (let commit = commitOf amb payload hc
                in (Inr commit, writeToKV_latestCommit w commit))))"

text \<open>
  The outcome of \<open>await fetch(...)\<close>: a response with its HTTP status, or a rejected
  promise (the request could not be made or did not complete).
\<close>

datatype FetchOutcome = Resolved nat | Rejected

definition ok :: "nat \<Rightarrow> bool" where
  "ok status \<longleftrightarrow> 200 \<le> status \<and> status \<le> 299"

text \<open>Truthiness of a string-valued property: present and not the empty string.\<close>

fun truthy :: "string option \<Rightarrow> bool" where
  "truthy None = False"
| "truthy (Some s) = (s \<noteq> [])"

record NotificationResponse =
  delivered :: bool
  forwardedToAutomation :: bool

text \<open>
  \<open>POST /api/trigger-notification\<close>. \<open>fetch\<close> is the network as the handler sees it,
  called with the URL and the body that is posted. The second component of the result
  lists the outbound calls the handler made. A rejected \<open>fetch\<close> is not caught in the
  handler, so the exception leaves it (\<open>Inl FetchRejected\<close>).
\<close>

definition forward ::
  "(string \<Rightarrow> NotificationBody \<Rightarrow> FetchOutcome) \<Rightarrow> Env \<Rightarrow> NotificationBody \<Rightarrow>
   (error + NotificationResponse) \<times> (string \<times> NotificationBody) list" where
  "forward fetch e b =
     (case N8N_WEBHOOK_URL e of
        None \<Rightarrow> (Inr \<lparr> delivered = True, forwardedToAutomation = False \<rparr>, [])
      | Some u \<Rightarrow>
          if u = [] then (Inr \<lparr> delivered = True, forwardedToAutomation = False \<rparr>, [])
          else (case fetch u b of
                  Rejected \<Rightarrow> (Inl FetchRejected, [(u, b)])
                | Resolved status \<Rightarrow>
                    (Inr \<lparr> delivered = True, forwardedToAutomation = ok status \<rparr>, [(u, b)])))"

definition triggerNotification ::
  "(string \<Rightarrow> NotificationBody \<Rightarrow> FetchOutcome) \<Rightarrow> Env \<Rightarrow> NotificationBody option \<Rightarrow>
   (error + NotificationResponse) \<times> (string \<times> NotificationBody) list" where
  "triggerNotification fetch e body =
     (case body of
        None \<Rightarrow> (Inl (HTTPException 400 ''channel and message are required''), [])
      | Some b \<Rightarrow>
          if \<not> truthy (channel b) \<or> \<not> truthy (NotificationBody.message b)
          then (Inl (HTTPException 400 ''channel and message are required''), [])
          else forward fetch e b)"

section \<open>Dashboard: the presence badge (src/react-app/App.tsx)\<close>

text \<open>
  \<open>unityActivityBadges\<close>, each text by its UTF-8 bytes (a coloured circle, a space and
  the words). Indexing the object with a key it does not have gives \<open>undefined\<close>,
  which the template literal prints as the word.
\<close>

definition unityActivityBadges :: "(UnityState \<times> string) list" where
  "unityActivityBadges =
     [(''working'', [CHR 0xF0, CHR 0x9F, CHR 0x9F, CHR 0xA2] @ '' Working''),
      (''break'', [CHR 0xF0, CHR 0x9F, CHR 0x9F, CHR 0xA1] @ '' On a Break''),
      (''offline'', [CHR 0xE2, CHR 0x9A, CHR 0xAB] @ '' Offline'')]"

definition staleSuffixText :: string where
  "staleSuffixText = [CHR '' '', CHR 0xE2, CHR 0x80, CHR 0xA2] @ '' last heartbeat >10m''"

text \<open>
  The three local constants of \<open>derivedUnityBadge\<close> and the badge itself. \<open>now\<close> is the
  reading of \<open>Date.now()\<close>. Instants are integers below \<open>2 ^ 53\<close>, on which the
  double subtraction and comparison are exact.
\<close>

definition stale :: "int \<Rightarrow> UnityStatus \<Rightarrow> bool" where
  "stale now status =
     (case getTime (UnityStatus.lastUpdated status) of
        None \<Rightarrow> True
      | Some updated \<Rightarrow> now - updated > 10 * 60 * 1000)"

definition baseState :: "int \<Rightarrow> UnityStatus \<Rightarrow> UnityState" where
  "baseState now status =
     (if stale now status then ''offline'' else UnityStatus.state status)"

definition derivedUnityBadge :: "int \<Rightarrow> UnityStatus \<Rightarrow> string" where
  "derivedUnityBadge now status =
     orElse (map_of unityActivityBadges (baseState now status)) ''undefined''
       @ (if stale now status then staleSuffixText else [])"

section \<open>Scenario inputs and vocabulary of the properties\<close>

text \<open>An update that sets only \<open>state\<close>: every optional property is absent.\<close>

definition stateOnly :: "UnityState \<Rightarrow> UnityStatusUpdate" where
  "stateOnly s =
     \<lparr> UnityStatusUpdate.state = s,
       UnityStatusUpdate.currentTask = None,
       UnityStatusUpdate.activityType = None,
       UnityStatusUpdate.sceneName = None,
       UnityStatusUpdate.unityVersion = None,
       UnityStatusUpdate.isPlayMode = None,
       UnityStatusUpdate.totalTodayHours = None,
       UnityStatusUpdate.totalWeekHours = None,
       UnityStatusUpdate.productiveStreak = None,
       UnityStatusUpdate.isHeartbeat = None \<rparr>"

text \<open>
  The update \<open>{state: "working", currentTask: "Fix bug", isHeartbeat: false}\<close> and a
  heartbeat.
\<close>

definition fixBugUpdate :: UnityStatusUpdate where
  "fixBugUpdate =
     (stateOnly ''working'')
       \<lparr> UnityStatusUpdate.currentTask := Some ''Fix bug'',
         UnityStatusUpdate.isHeartbeat := Some False \<rparr>"

definition heartbeatUpdate :: UnityStatusUpdate where
  "heartbeatUpdate = (stateOnly ''working'') \<lparr> UnityStatusUpdate.isHeartbeat := Some True \<rparr>"

text \<open>
  The surroundings of a request handled at instant \<open>t\<close>, both clock readings being
  \<open>t\<close>, and a deployment without bindings whose cache has not been touched.
\<close>

definition ambientAt :: "nat \<Rightarrow> Ambient" where
  "ambientAt t = \<lparr> newDate = int t, dateNow = t, mathRandom = ''a3f9c2'' \<rparr>"

definition freshWorld :: World where
  "freshWorld =
     \<lparr> env = \<lparr> UNITY_STATUS_KV = None, COMMIT_CACHE_KV = None, N8N_WEBHOOK_URL = None \<rparr>,
       DEV_PORTAL_CACHE = None \<rparr>"

text \<open>
  An update is an event when \<open>update.isHeartbeat ?? false\<close> is false. \<open>mergeAll\<close>
  applies a sequence of updates one after the other, each to the record the previous
  one produced, each with its own surroundings.
\<close>

definition isEvent :: "UnityStatusUpdate \<Rightarrow> bool" where
  "isEvent u \<longleftrightarrow> \<not> orElse (UnityStatusUpdate.isHeartbeat u) False"

fun mergeAll :: "UnityStatus \<Rightarrow> (Ambient \<times> UnityStatusUpdate) list \<Rightarrow> UnityStatus" where
  "mergeAll r [] = r"
| "mergeAll r ((amb, u) # rest) = mergeAll (mergeUnityStatus amb r u) rest"

definition elevenSteps :: "(Ambient \<times> UnityStatusUpdate) list" where
  "elevenSteps = map (\<lambda>t. (ambientAt t, stateOnly ''working'')) [1, 2, 3, 4, 5, 6, 7, 8, 9, 10, 11]"

text \<open>
  \<open>strictlyLater a b\<close>: both texts are dates and the instant of \<open>a\<close> is after the
  instant of \<open>b\<close>.
\<close>

definition strictlyLater :: "isostring \<Rightarrow> isostring \<Rightarrow> bool" where
  "strictlyLater a b =
     (case getTime a of
        None \<Rightarrow> False
      | Some x \<Rightarrow> (case getTime b of None \<Rightarrow> False | Some y \<Rightarrow> y < x))"


text \<open>
  Following the words of the specification, not the source: stripping the prefix
  \<open>refs/heads/\<close> removes it from a text that starts with it and leaves every other
  text as it is.
\<close>

definition specStripRefPrefix :: "string \<Rightarrow> string" where
  "specStripRefPrefix r = (if take 11 r = ''refs/heads/'' then drop 11 r else r)"

text \<open>\<open>occursAt pat s k\<close>: the pattern occurs in \<open>s\<close> starting at index \<open>k\<close>.\<close>

definition occursAt :: "string \<Rightarrow> string \<Rightarrow> nat \<Rightarrow> bool" where
  "occursAt pat s k \<longleftrightarrow> take (length pat) (drop k s) = pat \<and> k \<le> length s"

text \<open>
  A \<open>head_commit\<close> that has only \<open>id\<close>; the push of a tag named \<open>refs/heads/x\<close>;
  a push to the branch \<open>main\<close>.
\<close>

definition idOnly :: "string \<Rightarrow> GitHubHeadCommit" where
  "idOnly i =
     \<lparr> GitHubHeadCommit.id = Some i,
       GitHubHeadCommit.message = None,
       GitHubHeadCommit.timestamp = None,
       GitHubHeadCommit.url = None,
       GitHubHeadCommit.author = None \<rparr>"

definition tagPushPayload :: GitHubWebhookPayload where
  "tagPushPayload =
     \<lparr> ref = Some ''refs/tags/refs/heads/x'',
       GitHubWebhookPayload.repository = None,
       head_commit = Some (idOnly ''abc'') \<rparr>"

definition mainPushPayload :: GitHubWebhookPayload where
  "mainPushPayload =
     \<lparr> ref = Some ''refs/heads/main'',
       GitHubWebhookPayload.repository =
         Some \<lparr> full_name = Some ''dev/portal'', html_url = Some ''https://github.com/dev/portal'' \<rparr>,
       head_commit = Some (idOnly ''abc'') \<rparr>"

text \<open>
  Networks: one on which every request is rejected, one that answers every request with
  a given status. A notification and an environment with a webhook URL.
\<close>

definition fetchRejects :: "string \<Rightarrow> NotificationBody \<Rightarrow> FetchOutcome" where
  "fetchRejects u b = Rejected"

definition fetchStatus :: "nat \<Rightarrow> string \<Rightarrow> NotificationBody \<Rightarrow> FetchOutcome" where
  "fetchStatus status u b = Resolved status"

definition demoNotification :: NotificationBody where
  "demoNotification =
     \<lparr> channel = Some ''discord'',
       title = Some ''Showcase Notification'',
       NotificationBody.message = Some ''A milestone shipped'',
       metadata = None \<rparr>"

definition envWithWebhook :: Env where
  "envWithWebhook =
     \<lparr> UNITY_STATUS_KV = None, COMMIT_CACHE_KV = None,
       N8N_WEBHOOK_URL = Some ''https://n8n.example/webhook'' \<rparr>"

text \<open>The badge of the key \<open>offline\<close>.\<close>

definition offlineBadge :: string where
  "offlineBadge = [CHR 0xE2, CHR 0x9A, CHR 0xAB] @ '' Offline''"

section \<open>Properties of the merge\<close>

lemma isEvent_iff: "isEvent u \<longleftrightarrow> UnityStatusUpdate.isHeartbeat u \<noteq> Some True"
  by (cases "UnityStatusUpdate.isHeartbeat u") (auto simp: isEvent_def)

lemma merge_event_history:
  "isEvent u \<Longrightarrow>
     UnityStatus.history (mergeUnityStatus amb p u) =
       take 10 (historyEntry amb (nextStatus amb p u) # UnityStatus.history p)"
  by (simp add: mergeUnityStatus_def isEvent_def Let_def)

lemma merge_heartbeat_history:
  "\<not> isEvent u \<Longrightarrow> UnityStatus.history (mergeUnityStatus amb p u) = UnityStatus.history p"
  by (simp add: mergeUnityStatus_def isEvent_def Let_def)

lemma merge_scalars:
  "UnityStatus.state (mergeUnityStatus amb p u) = UnityStatusUpdate.state u"
  "UnityStatus.currentTask (mergeUnityStatus amb p u) =
     orElse (UnityStatusUpdate.currentTask u) (UnityStatus.currentTask p)"
  "UnityStatus.activityType (mergeUnityStatus amb p u) =
     orElse (UnityStatusUpdate.activityType u) (UnityStatus.activityType p)"
  "UnityStatus.sceneName (mergeUnityStatus amb p u) =
     orElse (UnityStatusUpdate.sceneName u) (UnityStatus.sceneName p)"
  "UnityStatus.unityVersion (mergeUnityStatus amb p u) =
     orElse (UnityStatusUpdate.unityVersion u) (UnityStatus.unityVersion p)"
  "UnityStatus.isPlayMode (mergeUnityStatus amb p u) =
     orElse (UnityStatusUpdate.isPlayMode u) (UnityStatus.isPlayMode p)"
  "UnityStatus.totalTodayHours (mergeUnityStatus amb p u) =
     orElse (UnityStatusUpdate.totalTodayHours u) (UnityStatus.totalTodayHours p)"
  "UnityStatus.totalWeekHours (mergeUnityStatus amb p u) =
     orElse (UnityStatusUpdate.totalWeekHours u) (UnityStatus.totalWeekHours p)"
  "UnityStatus.productiveStreak (mergeUnityStatus amb p u) =
     orElse (UnityStatusUpdate.productiveStreak u) (UnityStatus.productiveStreak p)"
  "UnityStatus.lastUpdated (mergeUnityStatus amb p u) = ISO (newDate amb)"
  by (simp_all add: mergeUnityStatus_def nextStatus_def Let_def)

lemma merge_isHeartbeat:
  "UnityStatus.isHeartbeat (mergeUnityStatus amb p u) =
     (case UnityStatusUpdate.isHeartbeat u of
        Some b \<Rightarrow> Some b
      | None \<Rightarrow> UnityStatus.isHeartbeat p)"
  by (simp add: mergeUnityStatus_def nextStatus_def Let_def)

lemma merge_event_entry:
  assumes "isEvent u"
  shows "\<exists>e. UnityStatus.history (mergeUnityStatus amb p u) = e # take 9 (UnityStatus.history p) \<and>
             UnityActivity.state e = UnityStatus.state (mergeUnityStatus amb p u) \<and>
             UnityActivity.label e =
               UnityStatus.activityType (mergeUnityStatus amb p u) @ labelSeparator @
               UnityStatus.currentTask (mergeUnityStatus amb p u) \<and>
             UnityActivity.timestamp e = UnityStatus.lastUpdated (mergeUnityStatus amb p u)"
proof -
  let ?e = "historyEntry amb (nextStatus amb p u)"
  have "UnityStatus.history (mergeUnityStatus amb p u) = ?e # take 9 (UnityStatus.history p)"
    using assms by (simp add: merge_event_history)
  moreover have "UnityActivity.state ?e = UnityStatus.state (mergeUnityStatus amb p u)"
    by (simp add: historyEntry_def nextStatus_def merge_scalars)
  moreover have "UnityActivity.label ?e =
      UnityStatus.activityType (mergeUnityStatus amb p u) @ labelSeparator @
      UnityStatus.currentTask (mergeUnityStatus amb p u)"
    by (simp add: historyEntry_def nextStatus_def merge_scalars)
  moreover have "UnityActivity.timestamp ?e = UnityStatus.lastUpdated (mergeUnityStatus amb p u)"
    by (simp add: historyEntry_def merge_scalars)
  ultimately show ?thesis by blast
qed

lemma merge_event_length:
  "isEvent u \<Longrightarrow>
     length (UnityStatus.history (mergeUnityStatus amb p u)) =
       min 10 (Suc (length (UnityStatus.history p)))"
  by (simp add: merge_event_history min_def)

text \<open>
  C1. An event update puts one new entry at the head of the history, which is then cut
  to ten entries; the entry's state and timestamp are those of the merged record, and
  its label is the merged activity type and the merged task around the separator
  (the two lemmas above). The separator is not the em dash: for the update
  \<open>{state: "working", currentTask: "Fix bug", isHeartbeat: false}\<close> merged into the
  default record at instant 1000, the history is the single entry below, and its label
  differs from \<open>Idle\<close>, space, em dash, space, \<open>Fix bug\<close>.
\<close>

theorem event_label_evaluated:
  "UnityStatus.history (mergeUnityStatus (ambientAt 1000) defaultUnityStatus fixBugUpdate) =
     [\<lparr> UnityActivity.id = ''1000-a3f9c2'',
        UnityActivity.state = ''working'',
        UnityActivity.label = ''Idle'' @ labelSeparator @ ''Fix bug'',
        UnityActivity.timestamp = ISO 1000 \<rparr>] \<and>
   ''Idle'' @ labelSeparator @ ''Fix bug'' \<noteq> ''Idle'' @ emDashSeparator @ ''Fix bug''"
  by (simp add: mergeUnityStatus_def nextStatus_def historyEntry_def defaultUnityStatus_def
      fixBugUpdate_def stateOnly_def ambientAt_def decimal.simps labelSeparator_def
      emDashSeparator_def)

section \<open>The history stays bounded\<close>

lemma mergeAll_snoc:
  "mergeAll r (steps @ [(amb, u)]) = mergeUnityStatus amb (mergeAll r steps) u"
  by (induction steps arbitrary: r) auto

lemma mergeAll_event_length:
  "list_all (\<lambda>(amb, u). isEvent u) steps \<Longrightarrow> length (UnityStatus.history r) \<le> 10 \<Longrightarrow>
     length (UnityStatus.history (mergeAll r steps)) =
       min 10 (length steps + length (UnityStatus.history r))"
proof (induction steps arbitrary: r)
  case Nil
  then show ?case by simp
next
  case (Cons step rest)
  obtain amb u where step: "step = (amb, u)" by (cases step)
  from Cons.prems step have ev: "isEvent u" and rest: "list_all (\<lambda>(amb, u). isEvent u) rest"
    by simp_all
  have "length (UnityStatus.history (mergeUnityStatus amb r u)) \<le> 10"
    by (simp add: merge_event_length [OF ev])
  from Cons.IH [OF rest this] show ?case
    by (simp add: step merge_event_length [OF ev])
qed

lemma mergeAll_oldest_kept:
  "list_all (\<lambda>(amb, u). isEvent u) steps \<Longrightarrow> UnityStatus.history r \<noteq> [] \<Longrightarrow>
   length steps + length (UnityStatus.history r) \<le> 10 \<Longrightarrow>
     last (UnityStatus.history (mergeAll r steps)) = last (UnityStatus.history r)"
proof (induction steps arbitrary: r)
  case Nil
  then show ?case by simp
next
  case (Cons step rest)
  obtain amb u where step: "step = (amb, u)" by (cases step)
  from Cons.prems step have ev: "isEvent u" and rest: "list_all (\<lambda>(amb, u). isEvent u) rest"
    by simp_all
  let ?r = "mergeUnityStatus amb r u"
  have h: "UnityStatus.history ?r = historyEntry amb (nextStatus amb r u) # UnityStatus.history r"
    using Cons.prems(3) by (simp add: merge_event_history [OF ev])
  have "last (UnityStatus.history (mergeAll ?r rest)) = last (UnityStatus.history ?r)"
    using Cons.prems(3) by (intro Cons.IH [OF rest]) (simp_all add: h)
  then show ?case
    using Cons.prems(2) by (simp add: step h)
qed

text \<open>
  C2. A merge keeps a history of at most ten entries within ten entries. For any eleven
  event updates applied in sequence to the default record: after the first ten the
  history has ten entries, the last of which is the entry made by the first update;
  after the eleventh it still has ten: the new entry followed by the previous history
  without its last entry, so the entry of the first update is the one dropped.
\<close>

theorem history_bounded:
  "(length (UnityStatus.history previous) \<le> 10 \<longrightarrow>
      length (UnityStatus.history (mergeUnityStatus amb previous update)) \<le> 10) \<and>
   (length steps = 11 \<and> list_all (\<lambda>(amb, u). isEvent u) steps \<longrightarrow>
      length (UnityStatus.history (mergeAll defaultUnityStatus (butlast steps))) = 10 \<and>
      last (UnityStatus.history (mergeAll defaultUnityStatus (butlast steps))) =
        historyEntry (fst (hd steps)) (nextStatus (fst (hd steps)) defaultUnityStatus (snd (hd steps))) \<and>
      length (UnityStatus.history (mergeAll defaultUnityStatus steps)) = 10 \<and>
      UnityStatus.history (mergeAll defaultUnityStatus steps) =
        historyEntry (fst (last steps))
          (nextStatus (fst (last steps)) (mergeAll defaultUnityStatus (butlast steps)) (snd (last steps)))
        # butlast (UnityStatus.history (mergeAll defaultUnityStatus (butlast steps))))"
proof (intro conjI impI)
  assume "length (UnityStatus.history previous) \<le> 10"
  then show "length (UnityStatus.history (mergeUnityStatus amb previous update)) \<le> 10"
    by (cases "isEvent update") (simp_all add: merge_event_length merge_heartbeat_history)
next
  assume a: "length steps = 11 \<and> list_all (\<lambda>(amb, u). isEvent u) steps"
  then have ne: "steps \<noteq> []" by auto
  let ?r10 = "mergeAll defaultUnityStatus (butlast steps)"
  obtain a1 u1 where first: "hd steps = (a1, u1)" by (cases "hd steps")
  obtain a11 u11 where final: "last steps = (a11, u11)" by (cases "last steps")
  have split: "steps = butlast steps @ [(a11, u11)]"
    using ne final by (metis append_butlast_last_id)
  have bl: "butlast steps = (a1, u1) # tl (butlast steps)"
    using a first by (cases steps) (auto split: if_splits)
  have evs: "list_all (\<lambda>(amb, u). isEvent u) (butlast steps)"
    using a by (metis split list_all_append)
  have "list_all (\<lambda>(amb, u). isEvent u) (butlast steps @ [(a11, u11)])"
    using a split by simp
  then have ev11: "isEvent u11"
    by simp
  have "list_all (\<lambda>(amb, u). isEvent u) ((a1, u1) # tl (butlast steps))"
    using evs bl by simp
  then have ev1: "isEvent u1" and evmid: "list_all (\<lambda>(amb, u). isEvent u) (tl (butlast steps))"
    by simp_all
  show len10: "length (UnityStatus.history ?r10) = 10"
    using a by (simp add: mergeAll_event_length [OF evs] defaultUnityStatus_def)
  let ?r1 = "mergeUnityStatus a1 defaultUnityStatus u1"
  have h1: "UnityStatus.history ?r1 = [historyEntry a1 (nextStatus a1 defaultUnityStatus u1)]"
    by (simp add: merge_event_history [OF ev1] defaultUnityStatus_def)
  have r10: "?r10 = mergeAll ?r1 (tl (butlast steps))"
    by (subst bl) simp
  have "last (UnityStatus.history (mergeAll ?r1 (tl (butlast steps)))) = last (UnityStatus.history ?r1)"
    using a by (intro mergeAll_oldest_kept [OF evmid]) (simp_all add: h1)
  then show "last (UnityStatus.history ?r10) =
      historyEntry (fst (hd steps)) (nextStatus (fst (hd steps)) defaultUnityStatus (snd (hd steps)))"
    by (simp add: r10 [symmetric] h1 first)
  have r11: "mergeAll defaultUnityStatus steps = mergeUnityStatus a11 ?r10 u11"
    by (subst split) (rule mergeAll_snoc)
  show "length (UnityStatus.history (mergeAll defaultUnityStatus steps)) = 10"
    by (simp add: r11 merge_event_length [OF ev11] len10)
  have "take 9 (UnityStatus.history ?r10) = butlast (UnityStatus.history ?r10)"
    using len10 by (simp add: butlast_conv_take)
  then show "UnityStatus.history (mergeAll defaultUnityStatus steps) =
      historyEntry (fst (last steps))
        (nextStatus (fst (last steps)) ?r10 (snd (last steps)))
      # butlast (UnityStatus.history ?r10)"
    by (simp add: r11 merge_event_history [OF ev11] final)
qed

theorem history_bounded_witness:
  "length (UnityStatus.history defaultUnityStatus) \<le> 10 \<and>
   length (UnityStatus.history (mergeUnityStatus (ambientAt 1) defaultUnityStatus fixBugUpdate)) \<le> 10 \<and>
   length elevenSteps = 11 \<and> list_all (\<lambda>(amb, u). isEvent u) elevenSteps \<and>
   length (UnityStatus.history (mergeAll defaultUnityStatus elevenSteps)) = 10 \<and>
   map UnityActivity.timestamp (UnityStatus.history (mergeAll defaultUnityStatus elevenSteps)) =
     map ISO [11, 10, 9, 8, 7, 6, 5, 4, 3, 2]"
proof -
  have hyp: "length elevenSteps = 11 \<and> list_all (\<lambda>(amb, u). isEvent u) elevenSteps"
    by (simp add: elevenSteps_def isEvent_def stateOnly_def)
  have d: "length (UnityStatus.history defaultUnityStatus) \<le> 10"
    by (simp add: defaultUnityStatus_def)
  note inst = history_bounded [of defaultUnityStatus "ambientAt 1" fixBugUpdate elevenSteps]
  have "map UnityActivity.timestamp (UnityStatus.history (mergeAll defaultUnityStatus elevenSteps)) =
     map ISO [11, 10, 9, 8, 7, 6, 5, 4, 3, 2]"
    by (simp add: elevenSteps_def mergeUnityStatus_def nextStatus_def historyEntry_def
        stateOnly_def ambientAt_def defaultUnityStatus_def)
  with inst hyp d show ?thesis by simp
qed

section \<open>Heartbeats\<close>

text \<open>
  A heartbeat does not always move \<open>lastUpdated\<close> strictly forward: when two
  heartbeats are merged at the same clock reading, the second record's \<open>lastUpdated\<close>
  equals the first's.
\<close>

theorem heartbeat_same_instant_counterexample:
  "\<not> strictlyLater
       (UnityStatus.lastUpdated
          (mergeUnityStatus (ambientAt 1000)
             (mergeUnityStatus (ambientAt 1000) defaultUnityStatus heartbeatUpdate) heartbeatUpdate))
       (UnityStatus.lastUpdated
          (mergeUnityStatus (ambientAt 1000) defaultUnityStatus heartbeatUpdate))"
  by (simp add: strictlyLater_def merge_scalars ambientAt_def)

text \<open>
  C3. A heartbeat leaves the history as it was and sets \<open>lastUpdated\<close> to the clock
  reading taken by the merge; the new \<open>lastUpdated\<close> is strictly later than the
  previous one exactly when that reading is after the previous record's instant.
\<close>

theorem heartbeat_keeps_history:
  "UnityStatusUpdate.isHeartbeat update = Some True \<Longrightarrow>
     UnityStatus.history (mergeUnityStatus amb previous update) = UnityStatus.history previous \<and>
     UnityStatus.lastUpdated (mergeUnityStatus amb previous update) = ISO (newDate amb) \<and>
     (strictlyLater (UnityStatus.lastUpdated (mergeUnityStatus amb previous update))
        (UnityStatus.lastUpdated previous) \<longleftrightarrow>
      (\<exists>t. UnityStatus.lastUpdated previous = ISO t \<and> t < newDate amb))"
  by (cases "UnityStatus.lastUpdated previous")
     (simp_all add: merge_heartbeat_history isEvent_def merge_scalars strictlyLater_def)

theorem heartbeat_keeps_history_witness:
  "UnityStatusUpdate.isHeartbeat heartbeatUpdate = Some True \<and>
   UnityStatus.history
     (mergeUnityStatus (ambientAt 2000)
        (mergeUnityStatus (ambientAt 1000) defaultUnityStatus fixBugUpdate) heartbeatUpdate) =
   UnityStatus.history (mergeUnityStatus (ambientAt 1000) defaultUnityStatus fixBugUpdate) \<and>
   strictlyLater
     (UnityStatus.lastUpdated
        (mergeUnityStatus (ambientAt 2000)
           (mergeUnityStatus (ambientAt 1000) defaultUnityStatus fixBugUpdate) heartbeatUpdate))
     (UnityStatus.lastUpdated (mergeUnityStatus (ambientAt 1000) defaultUnityStatus fixBugUpdate))"
proof -
  have hb: "UnityStatusUpdate.isHeartbeat heartbeatUpdate = Some True"
    by (simp add: heartbeatUpdate_def)
  from heartbeat_keeps_history [OF hb, of "ambientAt 2000"
      "mergeUnityStatus (ambientAt 1000) defaultUnityStatus fixBugUpdate"]
  show ?thesis
    by (simp add: hb merge_scalars ambientAt_def)
qed

section \<open>Omitted properties\<close>

text \<open>
  C4. Merging an update that sets only \<open>state\<close> leaves the task, the activity type,
  the scene name, the Unity version, the play-mode flag, both hour totals and the
  streak as they were in the previous record; the state is the update's and
  \<open>lastUpdated\<close> is the clock reading.
\<close>

theorem state_only_update_keeps_scalars:
  "UnityStatus.currentTask (mergeUnityStatus amb previous (stateOnly s)) =
     UnityStatus.currentTask previous \<and>
   UnityStatus.activityType (mergeUnityStatus amb previous (stateOnly s)) =
     UnityStatus.activityType previous \<and>
   UnityStatus.sceneName (mergeUnityStatus amb previous (stateOnly s)) =
     UnityStatus.sceneName previous \<and>
   UnityStatus.unityVersion (mergeUnityStatus amb previous (stateOnly s)) =
     UnityStatus.unityVersion previous \<and>
   UnityStatus.isPlayMode (mergeUnityStatus amb previous (stateOnly s)) =
     UnityStatus.isPlayMode previous \<and>
   UnityStatus.totalTodayHours (mergeUnityStatus amb previous (stateOnly s)) =
     UnityStatus.totalTodayHours previous \<and>
   UnityStatus.totalWeekHours (mergeUnityStatus amb previous (stateOnly s)) =
     UnityStatus.totalWeekHours previous \<and>
   UnityStatus.productiveStreak (mergeUnityStatus amb previous (stateOnly s)) =
     UnityStatus.productiveStreak previous \<and>
   UnityStatus.state (mergeUnityStatus amb previous (stateOnly s)) = s \<and>
   UnityStatus.lastUpdated (mergeUnityStatus amb previous (stateOnly s)) = ISO (newDate amb)"
  by (simp add: merge_scalars stateOnly_def)

section \<open>The handlers of /api/unity-status\<close>

lemma read_after_write:
  "fst (readFromKV_unityStatus (writeToKV_unityStatus w v)) = Some v"
  by (simp add: readFromKV_unityStatus_def writeToKV_unityStatus_def Let_def split: option.splits)

lemma write_after_read:
  "writeToKV_unityStatus (snd (readFromKV_unityStatus w)) v = writeToKV_unityStatus w v"
  by (simp add: readFromKV_unityStatus_def writeToKV_unityStatus_def Let_def split: option.splits)

lemma validate_valid:
  "UnityStatusUpdate.state u \<in> set allowedUnityStates \<Longrightarrow> validateUnityPayload u = Inr u"
  by (simp add: validateUnityPayload_def allowedUnityStateSet_def)

lemma post_valid:
  assumes "UnityStatusUpdate.state u \<in> set allowedUnityStates"
  shows "postUnityStatus amb w u =
     (Inr (mergeUnityStatus amb (fst (getUnityStatus w)) u),
      writeToKV_unityStatus w (mergeUnityStatus amb (fst (getUnityStatus w)) u))"
  by (simp add: postUnityStatus_def validate_valid [OF assms] getUnityStatus_def Let_def
      write_after_read split_beta)

lemma get_after_post:
  assumes "UnityStatusUpdate.state u \<in> set allowedUnityStates"
  shows "fst (getUnityStatus (snd (postUnityStatus amb w u))) =
     mergeUnityStatus amb (fst (getUnityStatus w)) u"
  by (simp add: post_valid [OF assms] getUnityStatus_def read_after_write split_beta)


text \<open>
  C5. An update whose state is none of \<open>working\<close>, \<open>break\<close>, \<open>offline\<close> is rejected
  with the 400 exception by the validation, the POST handler returns that exception
  whatever the clock says, and the state of the store is the one before the request,
  so a later GET answers as before.
\<close>

theorem invalid_state_rejected:
  "UnityStatusUpdate.state payload \<notin> set allowedUnityStates \<Longrightarrow>
     validateUnityPayload payload = Inl (HTTPException 400 ''Invalid Unity status state'') \<and>
     postUnityStatus amb w payload = (Inl (HTTPException 400 ''Invalid Unity status state''), w) \<and>
     getUnityStatus (snd (postUnityStatus amb w payload)) = getUnityStatus w"
  by (simp add: postUnityStatus_def validateUnityPayload_def allowedUnityStateSet_def)

theorem invalid_state_rejected_witness:
  "UnityStatusUpdate.state (stateOnly ''paused'') \<notin> set allowedUnityStates \<and>
   postUnityStatus (ambientAt 1000) (snd (postUnityStatus (ambientAt 500) freshWorld fixBugUpdate))
       (stateOnly ''paused'') =
     (Inl (HTTPException 400 ''Invalid Unity status state''),
      snd (postUnityStatus (ambientAt 500) freshWorld fixBugUpdate))"
proof -
  have bad: "UnityStatusUpdate.state (stateOnly ''paused'') \<notin> set allowedUnityStates"
    by (simp add: stateOnly_def allowedUnityStates_def)
  from invalid_state_rejected [OF bad, of "ambientAt 1000"
      "snd (postUnityStatus (ambientAt 500) freshWorld fixBugUpdate)"]
  show ?thesis using bad by simp
qed




section \<open>Commit normalization\<close>

lemma replace_first_occurrence:
  "occursAt pat s k \<Longrightarrow> (\<forall>j<k. \<not> occursAt pat s j) \<Longrightarrow>
     replace pat rep s = take k s @ rep @ drop (k + length pat) s"
proof (induction s arbitrary: k)
  case Nil
  then show ?case by (auto simp: occursAt_def)
next
  case (Cons c cs)
  show ?case
  proof (cases "take (length pat) (c # cs) = pat")
    case True
    then have "occursAt pat (c # cs) 0" by (simp add: occursAt_def)
    with Cons.prems(2) have "k = 0" by (cases k) auto
    with True show ?thesis by simp
  next
    case False
    with Cons.prems(1) obtain k' where k: "k = Suc k'"
      by (cases k) (auto simp: occursAt_def)
    from Cons.prems(1) k have occ: "occursAt pat cs k'"
      by (simp add: occursAt_def)
    have "\<forall>j<k'. \<not> occursAt pat cs j"
    proof (intro allI impI)
      fix j assume "j < k'"
      then have "\<not> occursAt pat (c # cs) (Suc j)" using Cons.prems(2) k by simp
      then show "\<not> occursAt pat cs j" by (simp add: occursAt_def)
    qed
    from Cons.IH [OF occ this] False show ?thesis by (simp add: k)
  qed
qed

lemma replace_absent:
  "(\<forall>k. \<not> occursAt pat s k) \<Longrightarrow> replace pat rep s = s"
proof (induction s)
  case Nil
  then have "\<not> occursAt pat [] 0" by blast
  then show ?case by (simp add: occursAt_def)
next
  case (Cons c cs)
  from Cons.prems have "\<not> occursAt pat (c # cs) 0" by blast
  then have no: "take (length pat) (c # cs) \<noteq> pat" by (simp add: occursAt_def)
  have "\<forall>k. \<not> occursAt pat cs k"
  proof
    fix k
    from Cons.prems have "\<not> occursAt pat (c # cs) (Suc k)" by blast
    then show "\<not> occursAt pat cs k" by (simp add: occursAt_def)
  qed
  from Cons.IH [OF this] no show ?case by simp
qed

lemma tag_ref_occurrence:
  "occursAt ''refs/heads/'' ''refs/tags/refs/heads/x'' 10 \<and>
   (\<forall>j<10. \<not> occursAt ''refs/heads/'' ''refs/tags/refs/heads/x'' j)"
  by (auto simp: occursAt_def less_Suc_eq eval_nat_numeral)

text \<open>
  The branch is not the ref with its prefix stripped: for the ref
  \<open>refs/tags/refs/heads/x\<close>, which does not start with \<open>refs/heads/\<close>, stripping the
  prefix changes nothing, while the handler stores the branch \<open>refs/tags/x\<close>.
\<close>

theorem branch_not_prefix_strip_counterexample:
  "LatestCommit.branch (commitOf (ambientAt 1000) tagPushPayload (idOnly ''abc'')) =
     Some ''refs/tags/x'' \<and>
   map_option specStripRefPrefix (ref tagPushPayload) = Some ''refs/tags/refs/heads/x''"
  by (simp add: commitOf_def tagPushPayload_def specStripRefPrefix_def)

text \<open>
  C7. The handler fails exactly when the body is null or has no \<open>head_commit\<close>, and
  then with the 400 exception and the store untouched. For a payload whose
  \<open>head_commit\<close> has only \<open>id\<close>: the commit is stored with that id, the message
  \<open>No commit message\<close>, the author \<open>Unknown\<close>, the repository URL or else the empty
  string as URL, and the clock reading as \<open>committedAt\<close>; the branch is absent when
  \<open>ref\<close> is, and otherwise it is \<open>ref\<close> with the first occurrence of \<open>refs/heads/\<close>
  removed: a ref that starts with it loses the prefix, a ref without it is unchanged.
\<close>

theorem commit_normalization:
  "((\<exists>e. fst (githubWebhook amb w body) = Inl e) \<longleftrightarrow>
      (body = None \<or> (\<exists>p. body = Some p \<and> head_commit p = None))) \<and>
   (\<forall>e. fst (githubWebhook amb w body) = Inl e \<longrightarrow>
      githubWebhook amb w body =
        (Inl (HTTPException 400 ''Missing head_commit in GitHub payload''), w)) \<and>
   (\<forall>p i. body = Some p \<and> head_commit p = Some (idOnly i) \<longrightarrow>
      githubWebhook amb w body =
        (Inr (commitOf amb p (idOnly i)), writeToKV_latestCommit w (commitOf amb p (idOnly i))) \<and>
      LatestCommit.id (commitOf amb p (idOnly i)) = i \<and>
      LatestCommit.message (commitOf amb p (idOnly i)) = ''No commit message'' \<and>
      LatestCommit.author (commitOf amb p (idOnly i)) = ''Unknown'' \<and>
      LatestCommit.url (commitOf amb p (idOnly i)) =
        (case GitHubWebhookPayload.repository p of
           None \<Rightarrow> []
         | Some r \<Rightarrow> (case html_url r of None \<Rightarrow> [] | Some u \<Rightarrow> u)) \<and>
      LatestCommit.committedAt (commitOf amb p (idOnly i)) = ISO (newDate amb) \<and>
      (ref p = None \<longrightarrow> LatestCommit.branch (commitOf amb p (idOnly i)) = None) \<and>
      (\<forall>b. ref p = Some (''refs/heads/'' @ b) \<longrightarrow>
         LatestCommit.branch (commitOf amb p (idOnly i)) = Some b) \<and>
      (\<forall>r. ref p = Some r \<and> (\<forall>k. \<not> occursAt ''refs/heads/'' r k) \<longrightarrow>
         LatestCommit.branch (commitOf amb p (idOnly i)) = Some r) \<and>
      (\<forall>r k. ref p = Some r \<and> occursAt ''refs/heads/'' r k \<and>
             (\<forall>j<k. \<not> occursAt ''refs/heads/'' r j) \<longrightarrow>
         LatestCommit.branch (commitOf amb p (idOnly i)) = Some (take k r @ drop (k + length ''refs/heads/'') r)))"
proof (intro conjI allI impI)
  show "(\<exists>e. fst (githubWebhook amb w body) = Inl e) \<longleftrightarrow>
      (body = None \<or> (\<exists>p. body = Some p \<and> head_commit p = None))"
    by (auto simp: githubWebhook_def Let_def split: option.splits)
next
  fix e assume "fst (githubWebhook amb w body) = Inl e"
  then show "githubWebhook amb w body =
        (Inl (HTTPException 400 ''Missing head_commit in GitHub payload''), w)"
    by (auto simp: githubWebhook_def Let_def split: option.splits)
next
  fix p i assume a: "body = Some p \<and> head_commit p = Some (idOnly i)"
  then show "githubWebhook amb w body =
        (Inr (commitOf amb p (idOnly i)), writeToKV_latestCommit w (commitOf amb p (idOnly i)))"
    by (simp add: githubWebhook_def Let_def)
  show "LatestCommit.id (commitOf amb p (idOnly i)) = i"
    by (simp add: commitOf_def idOnly_def)
  show "LatestCommit.message (commitOf amb p (idOnly i)) = ''No commit message''"
    by (simp add: commitOf_def idOnly_def)
  show "LatestCommit.author (commitOf amb p (idOnly i)) = ''Unknown''"
    by (simp add: commitOf_def idOnly_def)
  show "LatestCommit.url (commitOf amb p (idOnly i)) =
        (case GitHubWebhookPayload.repository p of
           None \<Rightarrow> []
         | Some r \<Rightarrow> (case html_url r of None \<Rightarrow> [] | Some u \<Rightarrow> u))"
    by (simp add: commitOf_def idOnly_def split: option.splits)
  show "LatestCommit.committedAt (commitOf amb p (idOnly i)) = ISO (newDate amb)"
    by (simp add: commitOf_def idOnly_def)
  {
    assume "ref p = None"
    then show "LatestCommit.branch (commitOf amb p (idOnly i)) = None"
      by (simp add: commitOf_def)
  }
  {
    fix b assume "ref p = Some (''refs/heads/'' @ b)"
    then show "LatestCommit.branch (commitOf amb p (idOnly i)) = Some b"
      by (simp add: commitOf_def)
  }
  {
    fix r assume "ref p = Some r \<and> (\<forall>k. \<not> occursAt ''refs/heads/'' r k)"
    then show "LatestCommit.branch (commitOf amb p (idOnly i)) = Some r"
      by (simp add: commitOf_def replace_absent)
  }
  {
    fix r k
    assume "ref p = Some r \<and> occursAt ''refs/heads/'' r k \<and>
             (\<forall>j<k. \<not> occursAt ''refs/heads/'' r j)"
    then show "LatestCommit.branch (commitOf amb p (idOnly i)) = Some (take k r @ drop (k + length ''refs/heads/'') r)"
      using replace_first_occurrence [of "''refs/heads/''" r k "[]"]
      by (simp add: commitOf_def)
  }
qed

theorem commit_normalization_witness:
  "fst (githubWebhook (ambientAt 1000) freshWorld None) =
     Inl (HTTPException 400 ''Missing head_commit in GitHub payload'') \<and>
   fst (githubWebhook (ambientAt 1000) freshWorld (Some mainPushPayload)) =
     Inr \<lparr> LatestCommit.id = ''abc'',
           LatestCommit.message = ''No commit message'',
           LatestCommit.author = ''Unknown'',
           LatestCommit.url = ''https://github.com/dev/portal'',
           LatestCommit.repository = ''dev/portal'',
           LatestCommit.committedAt = ISO 1000,
           LatestCommit.branch = Some ''main'' \<rparr> \<and>
   LatestCommit.branch (commitOf (ambientAt 1000) tagPushPayload (idOnly ''abc'')) =
     Some ''refs/tags/x''"
proof -
  have none: "\<exists>e. fst (githubWebhook (ambientAt 1000) freshWorld None) = Inl e"
    using commit_normalization [of "ambientAt 1000" freshWorld None] by simp
  then obtain e where e: "fst (githubWebhook (ambientAt 1000) freshWorld None) = Inl e" ..
  with commit_normalization [of "ambientAt 1000" freshWorld None]
  have first: "fst (githubWebhook (ambientAt 1000) freshWorld None) =
      Inl (HTTPException 400 ''Missing head_commit in GitHub payload'')"
    by (metis fst_conv)
  have hyp: "Some mainPushPayload = Some mainPushPayload \<and>
      head_commit mainPushPayload = Some (idOnly ''abc'')"
    by (simp add: mainPushPayload_def)
  have r: "ref mainPushPayload = Some (''refs/heads/'' @ ''main'')"
    by (simp add: mainPushPayload_def)
  from commit_normalization [of "ambientAt 1000" freshWorld "Some mainPushPayload"] hyp r
  have "fst (githubWebhook (ambientAt 1000) freshWorld (Some mainPushPayload)) =
          Inr (commitOf (ambientAt 1000) mainPushPayload (idOnly ''abc'')) \<and>
        LatestCommit.branch (commitOf (ambientAt 1000) mainPushPayload (idOnly ''abc'')) = Some ''main''"
    by (metis fst_conv)
  then have second: "fst (githubWebhook (ambientAt 1000) freshWorld (Some mainPushPayload)) =
     Inr \<lparr> LatestCommit.id = ''abc'',
           LatestCommit.message = ''No commit message'',
           LatestCommit.author = ''Unknown'',
           LatestCommit.url = ''https://github.com/dev/portal'',
           LatestCommit.repository = ''dev/portal'',
           LatestCommit.committedAt = ISO 1000,
           LatestCommit.branch = Some ''main'' \<rparr>"
    by (simp add: commitOf_def mainPushPayload_def idOnly_def ambientAt_def)
  have hyp3: "Some tagPushPayload = Some tagPushPayload \<and>
      head_commit tagPushPayload = Some (idOnly ''abc'')"
    by (simp add: tagPushPayload_def)
  have r3: "ref tagPushPayload = Some ''refs/tags/refs/heads/x''"
    by (simp add: tagPushPayload_def)
  from commit_normalization [of "ambientAt 1000" freshWorld "Some tagPushPayload"] hyp3 r3
    tag_ref_occurrence
  have "LatestCommit.branch (commitOf (ambientAt 1000) tagPushPayload (idOnly ''abc'')) =
      Some (take 10 ''refs/tags/refs/heads/x'' @ drop (10 + length ''refs/heads/'') ''refs/tags/refs/heads/x'')"
    by blast
  then have third: "LatestCommit.branch (commitOf (ambientAt 1000) tagPushPayload (idOnly ''abc'')) =
     Some ''refs/tags/x''"
    by simp
  from first second third show ?thesis by simp
qed

section \<open>Notification relay\<close>

text \<open>
  The relay does not always answer \<open>delivered: true\<close> for a body with a channel and a
  message: when the outbound request is rejected the exception leaves the handler, and
  a channel that is present but empty is refused with the 400 exception.
\<close>

theorem relay_failure_counterexample:
  "triggerNotification fetchRejects envWithWebhook (Some demoNotification) =
     (Inl FetchRejected, [(''https://n8n.example/webhook'', demoNotification)]) \<and>
   triggerNotification fetchRejects envWithWebhook
       (Some (demoNotification \<lparr> channel := Some [] \<rparr>)) =
     (Inl (HTTPException 400 ''channel and message are required''), [])"
  by (simp add: triggerNotification_def forward_def fetchRejects_def envWithWebhook_def
      demoNotification_def)

text \<open>
  C8. For a body whose channel and message are both non-empty: without a webhook URL
  (absent or empty) the relay makes no outbound call and answers delivered, not
  forwarded; with a URL it makes exactly one call, and when that call is answered it
  reports delivered and forwards the success of the status (200 to 299); when the call
  is rejected the exception is not caught and leaves the handler.
\<close>

theorem relay_outcomes:
  "truthy (channel b) \<and> truthy (NotificationBody.message b) \<Longrightarrow>
     (\<not> truthy (N8N_WEBHOOK_URL e) \<longrightarrow>
        triggerNotification fetch e (Some b) =
          (Inr \<lparr> delivered = True, forwardedToAutomation = False \<rparr>, [])) \<and>
     (\<forall>u status. N8N_WEBHOOK_URL e = Some u \<and> u \<noteq> [] \<and> fetch u b = Resolved status \<longrightarrow>
        triggerNotification fetch e (Some b) =
          (Inr \<lparr> delivered = True, forwardedToAutomation = (200 \<le> status \<and> status \<le> 299) \<rparr>,
           [(u, b)])) \<and>
     (\<forall>u. N8N_WEBHOOK_URL e = Some u \<and> u \<noteq> [] \<and> fetch u b = Rejected \<longrightarrow>
        triggerNotification fetch e (Some b) = (Inl FetchRejected, [(u, b)]))"
  by (cases "N8N_WEBHOOK_URL e") (auto simp: triggerNotification_def forward_def ok_def)

theorem relay_outcomes_witness:
  "truthy (channel demoNotification) \<and> truthy (NotificationBody.message demoNotification) \<and>
   triggerNotification (fetchStatus 200) (env freshWorld) (Some demoNotification) =
     (Inr \<lparr> delivered = True, forwardedToAutomation = False \<rparr>, []) \<and>
   triggerNotification (fetchStatus 200) envWithWebhook (Some demoNotification) =
     (Inr \<lparr> delivered = True, forwardedToAutomation = True \<rparr>,
      [(''https://n8n.example/webhook'', demoNotification)]) \<and>
   triggerNotification (fetchStatus 503) envWithWebhook (Some demoNotification) =
     (Inr \<lparr> delivered = True, forwardedToAutomation = False \<rparr>,
      [(''https://n8n.example/webhook'', demoNotification)]) \<and>
   triggerNotification fetchRejects envWithWebhook (Some demoNotification) =
     (Inl FetchRejected, [(''https://n8n.example/webhook'', demoNotification)])"
proof -
  have hyp: "truthy (channel demoNotification) \<and> truthy (NotificationBody.message demoNotification)"
    by (simp add: demoNotification_def)
  have url: "N8N_WEBHOOK_URL envWithWebhook = Some ''https://n8n.example/webhook''"
    "\<not> truthy (N8N_WEBHOOK_URL (env freshWorld))"
    by (simp_all add: envWithWebhook_def freshWorld_def)
  from relay_outcomes [OF hyp, of "env freshWorld" "fetchStatus 200"] url
  have a: "triggerNotification (fetchStatus 200) (env freshWorld) (Some demoNotification) =
     (Inr \<lparr> delivered = True, forwardedToAutomation = False \<rparr>, [])"
    by simp
  from relay_outcomes [OF hyp, of envWithWebhook "fetchStatus 200"] url
  have b: "triggerNotification (fetchStatus 200) envWithWebhook (Some demoNotification) =
     (Inr \<lparr> delivered = True, forwardedToAutomation = True \<rparr>,
      [(''https://n8n.example/webhook'', demoNotification)])"
    by (simp add: fetchStatus_def)
  from relay_outcomes [OF hyp, of envWithWebhook "fetchStatus 503"] url
  have c: "triggerNotification (fetchStatus 503) envWithWebhook (Some demoNotification) =
     (Inr \<lparr> delivered = True, forwardedToAutomation = False \<rparr>,
      [(''https://n8n.example/webhook'', demoNotification)])"
    by (simp add: fetchStatus_def)
  from relay_outcomes [OF hyp, of envWithWebhook fetchRejects] url
  have d: "triggerNotification fetchRejects envWithWebhook (Some demoNotification) =
     (Inl FetchRejected, [(''https://n8n.example/webhook'', demoNotification)])"
    by (simp add: fetchRejects_def)
  from hyp a b c d show ?thesis by simp
qed

section \<open>Staleness on the dashboard\<close>

lemma stale_iff: "UnityStatus.lastUpdated s = ISO t \<Longrightarrow> stale now s \<longleftrightarrow> now - t > 600000"
  by (simp add: stale_def)

lemma badge_stale: "stale now s \<Longrightarrow> derivedUnityBadge now s = offlineBadge @ staleSuffixText"
  by (simp add: derivedUnityBadge_def baseState_def unityActivityBadges_def offlineBadge_def)

lemma badge_fresh:
  "\<not> stale now s \<Longrightarrow>
     derivedUnityBadge now s = orElse (map_of unityActivityBadges (UnityStatus.state s)) ''undefined''"
  by (simp add: derivedUnityBadge_def baseState_def)

lemma badge_depends:
  "UnityStatus.state (s'::UnityStatus) = UnityStatus.state s \<Longrightarrow>
   UnityStatus.lastUpdated s' = UnityStatus.lastUpdated s \<Longrightarrow>
     stale now s' = stale now s \<and> derivedUnityBadge now s' = derivedUnityBadge now s"
  by (simp add: derivedUnityBadge_def baseState_def stale_def)

text \<open>
  C9. For a record whose \<open>lastUpdated\<close> is a date: it is stale exactly when more than
  ten minutes have passed since then; a stale record is shown with the offline badge
  and the heartbeat suffix whatever its state, a record that is not stale with the
  badge of its own state; eleven minutes make it stale and offline, nine minutes do
  not; and staleness and badge depend on the record only through its state and
  \<open>lastUpdated\<close>.
\<close>

theorem staleness_classification:
  "UnityStatus.lastUpdated s = ISO t \<Longrightarrow>
     (stale now s \<longleftrightarrow> now - t > 10 * 60 * 1000) \<and>
     (stale now s \<longrightarrow>
        baseState now s = ''offline'' \<and> derivedUnityBadge now s = offlineBadge @ staleSuffixText) \<and>
     (\<not> stale now s \<longrightarrow>
        baseState now s = UnityStatus.state s \<and>
        derivedUnityBadge now s =
          orElse (map_of unityActivityBadges (UnityStatus.state s)) ''undefined'') \<and>
     (now - t = 11 * 60 * 1000 \<longrightarrow> stale now s \<and> baseState now s = ''offline'') \<and>
     (now - t = 9 * 60 * 1000 \<longrightarrow> \<not> stale now s \<and> baseState now s = UnityStatus.state s) \<and>
     (\<forall>s'::UnityStatus. UnityStatus.state s' = UnityStatus.state s \<and>
           UnityStatus.lastUpdated s' = UnityStatus.lastUpdated s \<longrightarrow>
        stale now s' = stale now s \<and> derivedUnityBadge now s' = derivedUnityBadge now s)"
proof (intro conjI impI allI)
  assume lu: "UnityStatus.lastUpdated s = ISO t"
  show "stale now s \<longleftrightarrow> now - t > 10 * 60 * 1000"
    using stale_iff [OF lu] by simp
  {
    assume "stale now s"
    then show "baseState now s = ''offline''" by (simp add: baseState_def)
  }
  {
    assume "stale now s"
    then show "derivedUnityBadge now s = offlineBadge @ staleSuffixText" by (rule badge_stale)
  }
  {
    assume "\<not> stale now s"
    then show "baseState now s = UnityStatus.state s" by (simp add: baseState_def)
  }
  {
    assume "\<not> stale now s"
    then show "derivedUnityBadge now s =
          orElse (map_of unityActivityBadges (UnityStatus.state s)) ''undefined''"
      by (rule badge_fresh)
  }
  {
    assume "now - t = 11 * 60 * 1000"
    then have "stale now s" using stale_iff [OF lu, of now] by simp
    then show "stale now s" "baseState now s = ''offline''" by (simp_all add: baseState_def)
  }
  {
    assume "now - t = 9 * 60 * 1000"
    then have "\<not> stale now s" using stale_iff [OF lu, of now] by simp
    then show "\<not> stale now s" "baseState now s = UnityStatus.state s"
      by (simp_all add: baseState_def)
  }
  {
    fix s' :: UnityStatus
    assume a: "UnityStatus.state s' = UnityStatus.state s \<and>
           UnityStatus.lastUpdated s' = UnityStatus.lastUpdated s"
    then show "stale now s' = stale now s" "derivedUnityBadge now s' = derivedUnityBadge now s"
      using badge_depends [of s' s now] by simp_all
  }
qed

theorem staleness_classification_witness:
  "UnityStatus.lastUpdated (mergeUnityStatus (ambientAt 1000) defaultUnityStatus fixBugUpdate) = ISO 1000 \<and>
   stale 661000 (mergeUnityStatus (ambientAt 1000) defaultUnityStatus fixBugUpdate) \<and>
   derivedUnityBadge 661000 (mergeUnityStatus (ambientAt 1000) defaultUnityStatus fixBugUpdate) =
     offlineBadge @ staleSuffixText \<and>
   \<not> stale 541000 (mergeUnityStatus (ambientAt 1000) defaultUnityStatus fixBugUpdate) \<and>
   baseState 541000 (mergeUnityStatus (ambientAt 1000) defaultUnityStatus fixBugUpdate) = ''working''"
proof -
  let ?s = "mergeUnityStatus (ambientAt 1000) defaultUnityStatus fixBugUpdate"
  have lu: "UnityStatus.lastUpdated ?s = ISO 1000"
    by (simp add: merge_scalars ambientAt_def)
  have st: "UnityStatus.state ?s = ''working''"
    by (simp add: merge_scalars fixBugUpdate_def stateOnly_def)
  note old = staleness_classification [OF lu, of 661000]
  note new = staleness_classification [OF lu, of 541000]
  have a: "stale 661000 ?s"
    using old [THEN conjunct1] by simp
  have b: "derivedUnityBadge 661000 ?s = offlineBadge @ staleSuffixText"
    using old [THEN conjunct2, THEN conjunct1] a by blast
  have c: "\<not> stale 541000 ?s"
    using new [THEN conjunct1] by simp
  have d: "baseState 541000 ?s = ''working''"
    using new [THEN conjunct2, THEN conjunct2, THEN conjunct1] c st by simp
  from lu a b c d show ?thesis by blast
qed

section \<open>The heartbeat flag in the stored record\<close>

text \<open>
  C10. The merged record has the \<open>isHeartbeat\<close> property of the update, copied by the
  spread (an update without it leaves the property as the previous record had it). For
  a valid update the POST handler returns and stores the merged record, a later GET
  returns it, and so the record read back carries the flag the update had.
\<close>

theorem heartbeat_flag_carried:
  "UnityStatus.isHeartbeat (mergeUnityStatus amb previous update) =
     (case UnityStatusUpdate.isHeartbeat update of
        Some b \<Rightarrow> Some b
      | None \<Rightarrow> UnityStatus.isHeartbeat previous) \<and>
   (UnityStatusUpdate.state update \<in> set allowedUnityStates \<longrightarrow>
      postUnityStatus amb w update =
        (Inr (mergeUnityStatus amb (fst (getUnityStatus w)) update),
         writeToKV_unityStatus w (mergeUnityStatus amb (fst (getUnityStatus w)) update)) \<and>
      fst (getUnityStatus (snd (postUnityStatus amb w update))) =
        mergeUnityStatus amb (fst (getUnityStatus w)) update \<and>
      (\<forall>b. UnityStatusUpdate.isHeartbeat update = Some b \<longrightarrow>
         UnityStatus.isHeartbeat (fst (getUnityStatus (snd (postUnityStatus amb w update)))) =
           Some b))"
proof (intro conjI impI allI)
  show "UnityStatus.isHeartbeat (mergeUnityStatus amb previous update) =
     (case UnityStatusUpdate.isHeartbeat update of
        Some b \<Rightarrow> Some b
      | None \<Rightarrow> UnityStatus.isHeartbeat previous)"
    by (rule merge_isHeartbeat)
next
  assume v: "UnityStatusUpdate.state update \<in> set allowedUnityStates"
  show "postUnityStatus amb w update =
        (Inr (mergeUnityStatus amb (fst (getUnityStatus w)) update),
         writeToKV_unityStatus w (mergeUnityStatus amb (fst (getUnityStatus w)) update))"
    by (rule post_valid [OF v])
  show "fst (getUnityStatus (snd (postUnityStatus amb w update))) =
        mergeUnityStatus amb (fst (getUnityStatus w)) update"
    by (rule get_after_post [OF v])
  fix b assume "UnityStatusUpdate.isHeartbeat update = Some b"
  then show "UnityStatus.isHeartbeat (fst (getUnityStatus (snd (postUnityStatus amb w update)))) =
           Some b"
    by (simp add: get_after_post [OF v] merge_isHeartbeat)
qed

theorem heartbeat_flag_carried_witness:
  "UnityStatusUpdate.state heartbeatUpdate \<in> set allowedUnityStates \<and>
   UnityStatusUpdate.isHeartbeat heartbeatUpdate = Some True \<and>
   UnityStatus.isHeartbeat defaultUnityStatus = None \<and>
   UnityStatus.isHeartbeat
     (fst (getUnityStatus (snd (postUnityStatus (ambientAt 1000) freshWorld heartbeatUpdate)))) =
     Some True"
proof -
  have v: "UnityStatusUpdate.state heartbeatUpdate \<in> set allowedUnityStates"
    by (simp add: heartbeatUpdate_def stateOnly_def allowedUnityStates_def)
  have hb: "UnityStatusUpdate.isHeartbeat heartbeatUpdate = Some True"
    by (simp add: heartbeatUpdate_def)
  have d: "UnityStatus.isHeartbeat defaultUnityStatus = None"
    by (simp add: defaultUnityStatus_def)
  from heartbeat_flag_carried [of "ambientAt 1000" defaultUnityStatus heartbeatUpdate freshWorld,
      THEN conjunct2] v hb
  have "UnityStatus.isHeartbeat
     (fst (getUnityStatus (snd (postUnityStatus (ambientAt 1000) freshWorld heartbeatUpdate)))) =
     Some True"
    by blast
  with v hb d show ?thesis by blast
qed

end
